theory Spec2Isabelle
  imports Main "HOL-Library.Sublist"
begin

section \<open>Data model\<close>

text \<open>
  Timestamps (Python \<open>datetime\<close> values, compared by the store with \<open>lte\<close> and
  \<open>gte\<close>) are integers: a number of minutes on some fixed time line.
\<close>

type_synonym datetime = int

text \<open>
  The rows of the two tables that \<open>book_appointment_service.py\<close> and
  \<open>fetch_availability_service.py\<close> touch, with the columns those files use.
  The status column is a string: the services compare and write string constants.
\<close>

record schedule =
  s_id :: string
  s_professionalId :: string
  s_start :: datetime
  s_end :: datetime
  s_status :: string

record appointment =
  a_id :: string
  a_scheduleId :: string
  a_clientId :: string
  a_startTime :: datetime
  a_endTime :: datetime

record store =
  schedules :: "schedule list"
  appointments :: "appointment list"

text \<open>The response models of the three services (pydantic classes).\<close>

record BookingResponse =
  bookingId :: string
  professionalId :: string
  clientId :: string
  startTime :: string
  endTime :: string
  status :: string
  details :: "string option"
  errorMessage :: "string option"

record TimeSlot =
  start_time :: datetime
  end_time :: datetime
  ts_status :: string

record FetchAvailabilityResponse =
  availability :: "TimeSlot list"

record SyncScheduleResponse =
  success :: bool
  synced_appointments_count :: int
  errors :: "string list"

text \<open>
  What can be raised. The handler of \<open>book_appointment\<close> is \<open>except Exception\<close>, so
  two kinds are kept apart: an instance of \<open>Exception\<close>, with the text that \<open>str\<close>
  gives, and an instance of \<open>BaseException\<close> that is not an \<open>Exception\<close>, with the
  name of its class (\<open>asyncio.CancelledError\<close>, raised at an \<open>await\<close> when the task
  is cancelled, is one).
\<close>

datatype exn = Exception string | Other_BaseException string

text \<open>
  What a call depends on besides its arguments and the store: the library parser
  \<open>datetime.fromisoformat\<close> (\<open>Inl\<close> carries the text of the \<open>ValueError\<close> it
  raises, an \<open>Exception\<close>), what each awaited store access raises, if anything, and
  the identifier the store gives to the row it creates.
\<close>

record env =
  fromisoformat :: "string \<Rightarrow> string + datetime"
  find_first_fault :: "exn option"
  find_many_fault :: "exn option"
  create_fault :: "exn option"
  update_fault :: "exn option"
  new_id :: string

section \<open>Store accesses\<close>

text \<open>The \<open>where\<close> clause of the lookup in \<open>book_appointment\<close>.\<close>

definition book_where :: "string \<Rightarrow> datetime \<Rightarrow> datetime \<Rightarrow> schedule \<Rightarrow> bool" where
  "book_where p a b s \<longleftrightarrow>
     s_professionalId s = p \<and> s_status s = ''Available'' \<and> s_start s \<le> a \<and> s_end s \<ge> b"

text \<open>The \<open>where\<close> clause of the lookup in \<open>fetch_availability\<close>.\<close>

definition fetch_where :: "string \<Rightarrow> schedule \<Rightarrow> bool" where
  "fetch_where p s \<longleftrightarrow> s_professionalId s = p \<and> s_status s = ''AVAILABLE''"

text \<open>
  \<open>Schedule.prisma().find_first\<close>, \<open>find_many\<close>, \<open>Appointment.prisma().create\<close> and
  \<open>Schedule.prisma().update\<close>. No ordering is requested by the callers: rows come in
  the order the store holds them. \<open>Inl\<close> is a raised exception.
\<close>

definition find_first ::
  "env \<Rightarrow> store \<Rightarrow> string \<Rightarrow> datetime \<Rightarrow> datetime \<Rightarrow> exn + schedule option" where
  "find_first ev st p a b =
     (case find_first_fault ev of
        Some e \<Rightarrow> Inl e
      | None \<Rightarrow> Inr (find (book_where p a b) (schedules st)))"

definition find_many :: "env \<Rightarrow> store \<Rightarrow> string \<Rightarrow> exn + schedule list" where
  "find_many ev st p =
     (case find_many_fault ev of
        Some e \<Rightarrow> Inl e
      | None \<Rightarrow> Inr (filter (fetch_where p) (schedules st)))"

definition create_appointment ::
  "env \<Rightarrow> store \<Rightarrow> string \<Rightarrow> string \<Rightarrow> datetime \<Rightarrow> datetime \<Rightarrow> exn + appointment \<times> store" where
  "create_appointment ev st i c a b =
     (case create_fault ev of
        Some e \<Rightarrow> Inl e
      | None \<Rightarrow>
          (let ap = \<lparr>a_id = new_id ev, a_scheduleId = i, a_clientId = c,
                     a_startTime = a, a_endTime = b\<rparr>
           in Inr (ap, st\<lparr>appointments := appointments st @ [ap]\<rparr>)))"

definition set_status :: "string \<Rightarrow> string \<Rightarrow> schedule \<Rightarrow> schedule" where
  "set_status i v s = (if s_id s = i then s\<lparr>s_status := v\<rparr> else s)"

definition update_schedule :: "env \<Rightarrow> store \<Rightarrow> string \<Rightarrow> string \<Rightarrow> exn + store" where
  "update_schedule ev st i v =
     (case update_fault ev of
        Some e \<Rightarrow> Inl e
      | None \<Rightarrow> Inr (st\<lparr>schedules := map (set_status i v) (schedules st)\<rparr>))"

section \<open>book\_appointment\<close>

definition not_available ::
  "string \<Rightarrow> string \<Rightarrow> string \<Rightarrow> string \<Rightarrow> string option \<Rightarrow> BookingResponse" where
  "not_available p c sT eT d =
     \<lparr>bookingId = [], professionalId = p, clientId = c, startTime = sT, endTime = eT,
      status = ''Failure'', details = d,
      errorMessage = Some ''Professional is not available at the requested time.''\<rparr>"

definition booked ::
  "string \<Rightarrow> string \<Rightarrow> string \<Rightarrow> string \<Rightarrow> string \<Rightarrow> string option \<Rightarrow> BookingResponse" where
  "booked i p c sT eT d =
     \<lparr>bookingId = i, professionalId = p, clientId = c, startTime = sT, endTime = eT,
      status = ''Success'', details = d, errorMessage = None\<rparr>"

definition failed ::
  "string \<Rightarrow> string \<Rightarrow> string \<Rightarrow> string \<Rightarrow> string \<Rightarrow> BookingResponse" where
  "failed e p c sT eT =
     \<lparr>bookingId = [], professionalId = p, clientId = c, startTime = sT, endTime = eT,
      status = ''Failure'', details = None, errorMessage = Some e\<rparr>"

text \<open>
  The part of the \<open>try\<close> block that runs once the lookup has answered (source lines
  60 to 90): the reply for no slot, else create the appointment, then mark the slot.
  The result is the raised exception or the response, with the store as it is then.
\<close>

definition book_after_find ::
  "env \<Rightarrow> store \<Rightarrow> schedule option \<Rightarrow> string \<Rightarrow> string \<Rightarrow> string \<Rightarrow> string \<Rightarrow>
     string option \<Rightarrow> datetime \<Rightarrow> datetime \<Rightarrow> (exn + BookingResponse) \<times> store" where
  "book_after_find ev st found p c sT eT d a b =
     (case found of
        None \<Rightarrow> (Inr (not_available p c sT eT d), st)
      | Some s \<Rightarrow>
          (case create_appointment ev st (s_id s) c a b of
             Inl e \<Rightarrow> (Inl e, st)
           | Inr (ap, st1) \<Rightarrow>
               (case update_schedule ev st1 (s_id s) ''Booked'' of
                  Inl e \<Rightarrow> (Inl e, st1)
                | Inr st2 \<Rightarrow> (Inr (booked (a_id ap) p c sT eT d), st2))))"

text \<open>
  The body of the \<open>try\<close> block (source lines 48 to 90). A timestamp that does not
  parse raises \<open>ValueError\<close>, an \<open>Exception\<close>.
\<close>

definition book_appointment_try ::
  "env \<Rightarrow> store \<Rightarrow> string \<Rightarrow> string \<Rightarrow> string \<Rightarrow> string \<Rightarrow> string option \<Rightarrow>
     (exn + BookingResponse) \<times> store" where
  "book_appointment_try ev st p c sT eT d =
     (case fromisoformat ev sT of
        Inl e \<Rightarrow> (Inl (Exception e), st)
      | Inr a \<Rightarrow>
          (case fromisoformat ev eT of
             Inl e \<Rightarrow> (Inl (Exception e), st)
           | Inr b \<Rightarrow>
               (case find_first ev st p a b of
                  Inl x \<Rightarrow> (Inl x, st)
                | Inr found \<Rightarrow> book_after_find ev st found p c sT eT d a b)))"

text \<open>
  \<open>book_appointment\<close>: the \<open>try\<close> block and its \<open>except Exception\<close> handler (source
  lines 91 to 100). An \<open>Exception\<close> becomes the Failure response; anything else that
  was raised leaves the function (\<open>Inl\<close>). The store is returned as it is then.
\<close>

definition book_appointment ::
  "env \<Rightarrow> store \<Rightarrow> string \<Rightarrow> string \<Rightarrow> string \<Rightarrow> string \<Rightarrow> string option \<Rightarrow>
     (exn + BookingResponse) \<times> store" where
  "book_appointment ev st p c sT eT d =
     (case book_appointment_try ev st p c sT eT d of
        (Inr r, st') \<Rightarrow> (Inr r, st')
      | (Inl (Exception e), st') \<Rightarrow> (Inr (failed e p c sT eT), st')
      | (Inl (Other_BaseException n), st') \<Rightarrow> (Inl (Other_BaseException n), st'))"

section \<open>fetch\_availability\<close>

definition slot_of :: "schedule \<Rightarrow> TimeSlot" where
  "slot_of s = \<lparr>start_time = s_start s, end_time = s_end s, ts_status = s_status s\<rparr>"

text \<open>
  \<open>fetch_availability\<close> has no handler of its own: whatever the store access raises
  leaves the function (\<open>Inl\<close>). It only reads, so no store is returned.
\<close>

definition fetch_availability :: "env \<Rightarrow> store \<Rightarrow> string \<Rightarrow> exn + FetchAvailabilityResponse" where
  "fetch_availability ev st p =
     (case find_many ev st p of
        Inl e \<Rightarrow> Inl e
      | Inr rows \<Rightarrow> Inr \<lparr>availability = map slot_of rows\<rparr>)"

section \<open>sync\_external\_schedule\<close>

text \<open>
  The function reads no store and no external system: after the check of its
  arguments it returns a fixed count. Nothing in its \<open>try\<close> block can raise, so the
  handler is not a branch of the model.
\<close>

definition sync_external_schedule ::
  "string \<Rightarrow> string \<Rightarrow> string \<Rightarrow> datetime \<Rightarrow> datetime \<Rightarrow> SyncScheduleResponse" where
  "sync_external_schedule professional_id external_system_name api_key sync_start_date sync_end_date =
     (if api_key = [] \<or> external_system_name \<notin> set [''SystemA'', ''SystemB'']
      then \<lparr>success = False, synced_appointments_count = 0,
            errors = [''Invalid API Key or External System Name'']\<rparr>
      else \<lparr>success = True, synced_appointments_count = 5, errors = []\<rparr>)"

section \<open>Predicates on stores\<close>

text \<open>Two slots of one professional whose windows \<open>[start, end)\<close> meet.\<close>

definition overlap :: "schedule \<Rightarrow> schedule \<Rightarrow> bool" where
  "overlap s t \<longleftrightarrow>
     s_professionalId s = s_professionalId t \<and> s_start s < s_end t \<and> s_start t < s_end s"

definition is_booked :: "schedule \<Rightarrow> bool" where
  "is_booked s \<longleftrightarrow> s_status s = ''Booked''"

text \<open>A slot that is open for booking or has been booked.\<close>

definition live :: "schedule \<Rightarrow> bool" where
  "live s \<longleftrightarrow> s_status s = ''Available'' \<or> s_status s = ''Booked''"

text \<open>No two rows of the list that satisfy \<open>P\<close> overlap.\<close>

fun no_overlap :: "(schedule \<Rightarrow> bool) \<Rightarrow> schedule list \<Rightarrow> bool" where
  "no_overlap P [] = True"
| "no_overlap P (s # ss) = ((\<forall>t \<in> set ss. \<not> (P s \<and> P t \<and> overlap s t)) \<and> no_overlap P ss)"

definition unique_ids :: "store \<Rightarrow> bool" where
  "unique_ids st \<longleftrightarrow> distinct (map s_id (schedules st))"

text \<open>
  Slot and appointment agree: every appointment refers to a slot that is Booked, and
  every Booked slot has an appointment.
\<close>

definition slot_matches_appointment :: "store \<Rightarrow> bool" where
  "slot_matches_appointment st \<longleftrightarrow>
     (\<forall>ap \<in> set (appointments st).
        \<exists>s \<in> set (schedules st). s_id s = a_scheduleId ap \<and> is_booked s) \<and>
     (\<forall>s \<in> set (schedules st).
        is_booked s \<longrightarrow> (\<exists>ap \<in> set (appointments st). a_scheduleId ap = s_id s))"

text \<open>Two appointments whose windows \<open>[start, end)\<close> meet.\<close>

definition appointments_overlap :: "appointment \<Rightarrow> appointment \<Rightarrow> bool" where
  "appointments_overlap x y \<longleftrightarrow> a_startTime x < a_endTime y \<and> a_startTime y < a_endTime x"





text \<open>No fault of the environment is outside \<open>Exception\<close>.\<close>

definition is_Exception :: "exn option \<Rightarrow> bool" where
  "is_Exception x = (case x of Some (Other_BaseException n) \<Rightarrow> False | _ \<Rightarrow> True)"

definition only_Exceptions :: "env \<Rightarrow> bool" where
  "only_Exceptions ev \<longleftrightarrow>
     is_Exception (find_first_fault ev) \<and> is_Exception (create_fault ev) \<and>
     is_Exception (update_fault ev)"

section \<open>Sample data\<close>

text \<open>
  The answers of \<open>datetime.fromisoformat\<close> on the strings that the examples use: the
  four timestamps, as minutes since midnight of 2024-01-01, and the strings
  \<open>tomorrow\<close> and \<open>noon\<close>, which are no timestamps and raise \<open>ValueError\<close> with the
  text below (the argument in single quotes, as \<open>repr\<close> prints it). The examples pass
  no other string; the last branch only makes the table total.
\<close>

definition sample_fromisoformat :: "string \<Rightarrow> string + datetime" where
  "sample_fromisoformat s =
     (if s = ''2024-01-01T10:00'' then Inr 600
      else if s = ''2024-01-01T10:30'' then Inr 630
      else if s = ''2024-01-01T11:00'' then Inr 660
      else if s = ''2024-01-01T12:00'' then Inr 720
      else Inl (''Invalid isoformat string: '' @ [CHR 0x27] @ s @ [CHR 0x27]))"

definition ok_env :: env where
  "ok_env = \<lparr>fromisoformat = sample_fromisoformat, find_first_fault = None,
             find_many_fault = None, create_fault = None, update_fault = None,
             new_id = ''appt-1''\<rparr>"

definition slot :: "string \<Rightarrow> datetime \<Rightarrow> datetime \<Rightarrow> string \<Rightarrow> schedule" where
  "slot i a b v = \<lparr>s_id = i, s_professionalId = ''P'', s_start = a, s_end = b, s_status = v\<rparr>"

definition one_slot :: store where
  "one_slot = \<lparr>schedules = [slot ''s1'' 600 660 ''Available''], appointments = []\<rparr>"

definition two_slots :: store where
  "two_slots = \<lparr>schedules = [slot ''s1'' 600 660 ''Available'', slot ''s2'' 600 660 ''Available''],
                appointments = []\<rparr>"

definition second_env :: env where
  "second_env = ok_env\<lparr>new_id := ''appt-2''\<rparr>"

definition create_down :: env where
  "create_down = ok_env\<lparr>create_fault := Some (Exception ''connection lost'')\<rparr>"

definition update_down :: env where
  "update_down = ok_env\<lparr>update_fault := Some (Exception ''connection lost'')\<rparr>"

definition find_down :: env where
  "find_down = ok_env\<lparr>find_first_fault := Some (Exception ''connection lost'')\<rparr>"

text \<open>The task is cancelled while it waits for the lookup.\<close>

definition cancelled_env :: env where
  "cancelled_env = ok_env\<lparr>find_first_fault := Some (Other_BaseException ''CancelledError'')\<rparr>"

definition appt :: "string \<Rightarrow> string \<Rightarrow> string \<Rightarrow> datetime \<Rightarrow> datetime \<Rightarrow> appointment" where
  "appt i j c a b =
     \<lparr>a_id = i, a_scheduleId = j, a_clientId = c, a_startTime = a, a_endTime = b\<rparr>"

text \<open>\<open>one_slot\<close> after client A has booked 10:00 to 11:00.\<close>

definition one_slot_booked :: store where
  "one_slot_booked =
     \<lparr>schedules = [slot ''s1'' 600 660 ''Booked''],
      appointments = [appt ''appt-1'' ''s1'' ''A'' 600 660]\<rparr>"

text \<open>The same slot with a second appointment, of client B, 10:00 to 10:30.\<close>

definition one_slot_twice :: store where
  "one_slot_twice =
     \<lparr>schedules = [slot ''s1'' 600 660 ''Booked''],
      appointments = [appt ''appt-1'' ''s1'' ''A'' 600 660, appt ''appt-2'' ''s1'' ''B'' 600 630]\<rparr>"

text \<open>\<open>one_slot\<close> with the appointment of client A created and the slot not marked.\<close>

definition one_slot_unmarked :: store where
  "one_slot_unmarked =
     \<lparr>schedules = [slot ''s1'' 600 660 ''Available''],
      appointments = [appt ''appt-1'' ''s1'' ''A'' 600 660]\<rparr>"

text \<open>\<open>one_slot\<close> booked for the window from 10:30 to 10:30.\<close>

definition one_slot_empty_window :: store where
  "one_slot_empty_window =
     \<lparr>schedules = [slot ''s1'' 600 660 ''Booked''],
      appointments = [appt ''appt-1'' ''s1'' ''A'' 630 630]\<rparr>"

text \<open>\<open>two_slots\<close> after the first and after the second booking.\<close>

definition two_slots_first :: store where
  "two_slots_first =
     \<lparr>schedules = [slot ''s1'' 600 660 ''Booked'', slot ''s2'' 600 660 ''Available''],
      appointments = [appt ''appt-1'' ''s1'' ''A'' 600 660]\<rparr>"

definition two_slots_both :: store where
  "two_slots_both =
     \<lparr>schedules = [slot ''s1'' 600 660 ''Booked'', slot ''s2'' 600 660 ''Booked''],
      appointments = [appt ''appt-1'' ''s1'' ''A'' 600 660, appt ''appt-2'' ''s2'' ''B'' 600 630]\<rparr>"

text \<open>
  Two slots that follow each other, 10:00 to 11:00 and 11:00 to 12:00, the first one
  booked by client A; and the same store after client B has booked the second.
\<close>

definition day_plan :: store where
  "day_plan =
     \<lparr>schedules = [slot ''s1'' 600 660 ''Booked'', slot ''s2'' 660 720 ''Available''],
      appointments = [appt ''appt-1'' ''s1'' ''A'' 600 660]\<rparr>"

definition day_plan_full :: store where
  "day_plan_full =
     \<lparr>schedules = [slot ''s1'' 600 660 ''Booked'', slot ''s2'' 660 720 ''Booked''],
      appointments = [appt ''appt-1'' ''s1'' ''A'' 600 660, appt ''appt-2'' ''s2'' ''B'' 660 720]\<rparr>"

text \<open>
  A store whose rows are not in the order of their start times, with one row for each
  spelling of the status.
\<close>

definition listed_store :: store where
  "listed_store =
     \<lparr>schedules = [slot ''s1'' 660 720 ''AVAILABLE'', slot ''s2'' 600 660 ''AVAILABLE'',
                   slot ''s3'' 600 660 ''Available'', slot ''s4'' 720 780 ''Booked''],
      appointments = []\<rparr>"

definition listed_store_booked :: store where
  "listed_store_booked =
     \<lparr>schedules = [slot ''s1'' 660 720 ''AVAILABLE'', slot ''s2'' 600 660 ''AVAILABLE'',
                   slot ''s3'' 600 660 ''Booked'', slot ''s4'' 720 780 ''Booked''],
      appointments = [appt ''appt-1'' ''s3'' ''A'' 600 660]\<rparr>"

section \<open>Auxiliary facts\<close>

lemmas resp_defs = not_available_def booked_def failed_def
lemmas op_defs = find_first_def find_many_def create_appointment_def update_schedule_def
lemmas book_defs = book_appointment_def book_appointment_try_def book_after_find_def
lemmas sample_defs = ok_env_def second_env_def create_down_def update_down_def find_down_def
  cancelled_env_def sample_fromisoformat_def slot_def appt_def one_slot_def two_slots_def
  one_slot_booked_def one_slot_twice_def one_slot_unmarked_def one_slot_empty_window_def
  two_slots_first_def two_slots_both_def day_plan_def day_plan_full_def listed_store_def
  listed_store_booked_def
lemmas eval_defs = book_defs op_defs resp_defs sample_defs book_where_def fetch_where_def
  set_status_def slot_of_def fetch_availability_def Let_def

lemma find_book_where:
  "find (book_where p a b) ss = Some s \<Longrightarrow> s \<in> set ss \<and> book_where p a b s"
  by (auto simp: find_Some_iff)

lemma find_book_where_None:
  "(find (book_where p a b) ss = None) = (\<forall>s \<in> set ss. \<not> book_where p a b s)"
  by (auto simp: find_None_iff)

text \<open>The ways a call of \<open>book_appointment\<close> can end.\<close>

lemma book_appointment_outcomes:
  assumes "book_appointment ev st p c sT eT d = (out, st')"
  shows "(st' = st \<and> (\<exists>e. out = Inr (failed e p c sT eT)))
       \<or> (st' = st \<and> (\<exists>n. out = Inl (Other_BaseException n)))
       \<or> (\<exists>a b. fromisoformat ev sT = Inr a \<and> fromisoformat ev eT = Inr b \<and>
              find_first_fault ev = None \<and>
              find (book_where p a b) (schedules st) = None \<and>
              out = Inr (not_available p c sT eT d) \<and> st' = st)
       \<or> (\<exists>a b s. fromisoformat ev sT = Inr a \<and> fromisoformat ev eT = Inr b \<and>
              find (book_where p a b) (schedules st) = Some s \<and>
              update_fault ev \<noteq> None \<and>
              ((\<exists>e. out = Inr (failed e p c sT eT)) \<or> (\<exists>n. out = Inl (Other_BaseException n))) \<and>
              st' = st\<lparr>appointments := appointments st @
                       [\<lparr>a_id = new_id ev, a_scheduleId = s_id s, a_clientId = c,
                         a_startTime = a, a_endTime = b\<rparr>]\<rparr>)
       \<or> (\<exists>a b s. fromisoformat ev sT = Inr a \<and> fromisoformat ev eT = Inr b \<and>
              find (book_where p a b) (schedules st) = Some s \<and>
              update_fault ev = None \<and>
              out = Inr (booked (new_id ev) p c sT eT d) \<and>
              st' = \<lparr>schedules = map (set_status (s_id s) ''Booked'') (schedules st),
                     appointments = appointments st @
                       [\<lparr>a_id = new_id ev, a_scheduleId = s_id s, a_clientId = c,
                         a_startTime = a, a_endTime = b\<rparr>]\<rparr>)"
  using assms
  by (auto simp: book_defs op_defs Let_def split: sum.splits option.splits prod.splits exn.splits)

text \<open>What a call can do to the rows of the slots.\<close>

lemma book_appointment_schedules:
  assumes "book_appointment ev st p c sT eT d = (out, st')"
  shows "schedules st' = schedules st
       \<or> (\<exists>a b s. find (book_where p a b) (schedules st) = Some s \<and>
            schedules st' = map (set_status (s_id s) ''Booked'') (schedules st))"
  using book_appointment_outcomes [OF assms] by fastforce

lemma set_status_other:
  assumes "distinct (map s_id ss)" "s \<in> set ss" "t \<in> set ss" "t \<noteq> s"
  shows "set_status (s_id s) v t = t"
proof -
  have "s_id t \<noteq> s_id s"
    using assms by (metis distinct_map inj_onD)
  then show ?thesis by (simp add: set_status_def)
qed

lemma overlap_set_status [simp]:
  "overlap (set_status i v s) (set_status j w t) = overlap s t"
  by (simp add: overlap_def set_status_def)

lemma s_id_set_status [simp]: "s_id (set_status i v s) = s_id s"
  by (simp add: set_status_def)

lemma s_professionalId_set_status [simp]:
  "s_professionalId (set_status i v s) = s_professionalId s"
  by (simp add: set_status_def)

lemma s_id_comp_set_status [simp]: "s_id \<circ> set_status i v = s_id"
  by (simp add: fun_eq_iff)



lemma overlap_sym: "overlap s t = overlap t s"
  by (auto simp: overlap_def)

lemma no_overlap_mem:
  assumes "no_overlap P ss" "s \<in> set ss" "t \<in> set ss" "s \<noteq> t" "P s" "P t"
  shows "\<not> overlap s t"
  using assms by (induction ss) (auto simp: overlap_sym)



lemma filter_map_unchanged:
  assumes "\<And>t. t \<in> set ss \<Longrightarrow> P (f t) \<or> P t \<Longrightarrow> f t = t"
  shows "filter P (map f ss) = filter P ss"
  using assms
proof (induction ss)
  case Nil
  then show ?case by simp
next
  case (Cons x xs)
  have tl: "filter P (map f xs) = filter P xs"
    using Cons by simp
  have hd: "P (f x) \<or> P x \<Longrightarrow> f x = x"
    using Cons.prems [of x] by simp
  show ?case
  proof (cases "P (f x) \<or> P x")
    case True
    with hd tl show ?thesis by simp
  next
    case False
    with tl show ?thesis by simp
  qed
qed









section \<open>Booking and overlapping windows\<close>





text \<open>
  Claim C2, as the code has it. The code has no compare-and-set: the lookup, the
  creation of the appointment and the unconditional update by identifier are three
  separate store accesses. For calls that run one after the other the exclusion
  holds: in a store with unique slot identifiers and no overlapping Available or
  Booked slots of one professional, once a booking of a window has succeeded, a later
  request of the same professional for an overlapping window (both windows with
  start before end) leaves the store as it is and does not succeed: it is answered
  with Failure, unless its lookup raises something that is no \<open>Exception\<close>.
\<close>

theorem sequential_overlapping_bookings_exclude:
  assumes ids: "unique_ids st"
    and inv: "no_overlap live (schedules st)"
    and first: "book_appointment ev1 st p c1 sT1 eT1 d1 = (Inr r1, st1)"
    and ok1: "status r1 = ''Success''"
    and parse1: "fromisoformat ev1 sT1 = Inr a1" "fromisoformat ev1 eT1 = Inr b1"
    and parse2: "fromisoformat ev2 sT2 = Inr a2" "fromisoformat ev2 eT2 = Inr b2"
    and windows: "a1 < b1" "a2 < b2" "a1 < b2" "a2 < b1"
    and second: "book_appointment ev2 st1 p c2 sT2 eT2 d2 = (out2, st2)"
  shows "st2 = st1 \<and>
         (\<forall>r2. out2 = Inr r2 \<longrightarrow> status r2 = ''Failure'') \<and>
         (is_Exception (find_first_fault ev2) \<longrightarrow> (\<exists>r2. out2 = Inr r2 \<and> status r2 = ''Failure''))"
proof -
  from book_appointment_outcomes [OF first] ok1 parse1
  obtain s where s: "find (book_where p a1 b1) (schedules st) = Some s"
    and st1: "schedules st1 = map (set_status (s_id s) ''Booked'') (schedules st)"
    by (auto simp: resp_defs)
  from find_book_where [OF s] have s_in: "s \<in> set (schedules st)" and sw: "book_where p a1 b1 s"
    by simp_all
  have none: "\<not> book_where p a2 b2 t" if t: "t \<in> set (schedules st1)" for t
  proof
    assume tw: "book_where p a2 b2 t"
    from t st1 obtain u where u: "u \<in> set (schedules st)" "t = set_status (s_id s) ''Booked'' u"
      by auto
    have "u \<noteq> s"
      using tw u(2) by (auto simp: book_where_def set_status_def)
    with set_status_other [OF _ s_in u(1)] ids u(2) have "t = u"
      by (simp add: unique_ids_def)
    with tw u(1) sw windows have "overlap s u" "live s" "live u"
      by (auto simp: overlap_def book_where_def live_def)
    with no_overlap_mem [OF inv s_in u(1)] \<open>u \<noteq> s\<close> show False by auto
  qed
  then have nf: "find (book_where p a2 b2) (schedules st1) = None"
    by (simp add: find_book_where_None)
  have "book_appointment ev2 st1 p c2 sT2 eT2 d2 =
      (case find_first_fault ev2 of
         None \<Rightarrow> (Inr (not_available p c2 sT2 eT2 d2), st1)
       | Some (Exception e) \<Rightarrow> (Inr (failed e p c2 sT2 eT2), st1)
       | Some (Other_BaseException n) \<Rightarrow> (Inl (Other_BaseException n), st1))"
    using parse2 nf
    by (simp add: book_defs find_first_def split: option.splits exn.splits)
  with second show ?thesis
    by (auto simp: resp_defs is_Exception_def split: option.splits exn.splits)
qed

text \<open>
  The slot 10:00 to 11:00 is booked by client A; the request of client B for 10:00
  to 10:30, issued afterwards, fails and changes nothing.
\<close>

theorem sequential_overlapping_bookings_exclude_witness:
  "unique_ids one_slot \<and> no_overlap live (schedules one_slot) \<and>
   book_appointment ok_env one_slot ''P'' ''A'' ''2024-01-01T10:00'' ''2024-01-01T11:00'' None
     = (Inr (booked ''appt-1'' ''P'' ''A'' ''2024-01-01T10:00'' ''2024-01-01T11:00'' None),
        one_slot_booked) \<and>
   is_Exception (find_first_fault second_env) \<and>
   (\<exists>r2. fst (book_appointment second_env one_slot_booked ''P'' ''B''
                ''2024-01-01T10:00'' ''2024-01-01T10:30'' None) = Inr r2 \<and>
         status r2 = ''Failure'') \<and>
   snd (book_appointment second_env one_slot_booked ''P'' ''B''
          ''2024-01-01T10:00'' ''2024-01-01T10:30'' None) = one_slot_booked"
proof -
  have ids: "unique_ids one_slot"
    by (simp add: unique_ids_def sample_defs)
  have inv: "no_overlap live (schedules one_slot)"
    by (simp add: sample_defs)
  have first: "book_appointment ok_env one_slot ''P'' ''A''
       ''2024-01-01T10:00'' ''2024-01-01T11:00'' None
     = (Inr (booked ''appt-1'' ''P'' ''A'' ''2024-01-01T10:00'' ''2024-01-01T11:00'' None),
        one_slot_booked)"
    by (simp add: eval_defs)
  have ok1: "status (booked ''appt-1'' ''P'' ''A'' ''2024-01-01T10:00'' ''2024-01-01T11:00'' None)
     = ''Success''"
    by (simp add: booked_def)
  have p1: "fromisoformat ok_env ''2024-01-01T10:00'' = Inr 600"
    and p2: "fromisoformat ok_env ''2024-01-01T11:00'' = Inr 660"
    and p3: "fromisoformat second_env ''2024-01-01T10:00'' = Inr 600"
    and p4: "fromisoformat second_env ''2024-01-01T10:30'' = Inr 630"
    by (simp_all add: sample_defs)
  have w: "(600::int) < 660" "(600::int) < 630" "(600::int) < 630" "(600::int) < 660"
    by simp_all
  have exc: "is_Exception (find_first_fault second_env)"
    by (simp add: is_Exception_def sample_defs)
  show ?thesis
    using ids inv first exc
      sequential_overlapping_bookings_exclude
        [OF ids inv first ok1 p1 p2 p3 p4 w prod.collapse [symmetric]]
    by simp
qed

text \<open>
  The claim as it is written fails when two calls overlap in time. The function
  gives up control at each store access; both calls run their lookup on \<open>one_slot\<close>
  and both get the slot \<open>s1\<close>. The rest of the call of client A then books it. The
  rest of the call of client B, run with the slot it was given, creates a second
  appointment on the slot, now Booked, writes Booked again and reports Success too.
\<close>

theorem interleaved_bookings_counterexample:
  "find_first ok_env one_slot ''P'' 600 660 = Inr (Some (slot ''s1'' 600 660 ''Available'')) \<and>
   find_first second_env one_slot ''P'' 600 630 = Inr (Some (slot ''s1'' 600 660 ''Available'')) \<and>
   book_after_find ok_env one_slot (Some (slot ''s1'' 600 660 ''Available'')) ''P'' ''A''
       ''2024-01-01T10:00'' ''2024-01-01T11:00'' None 600 660
     = (Inr (booked ''appt-1'' ''P'' ''A'' ''2024-01-01T10:00'' ''2024-01-01T11:00'' None),
        one_slot_booked) \<and>
   book_after_find second_env one_slot_booked (Some (slot ''s1'' 600 660 ''Available'')) ''P'' ''B''
       ''2024-01-01T10:00'' ''2024-01-01T10:30'' None 600 630
     = (Inr (booked ''appt-2'' ''P'' ''B'' ''2024-01-01T10:00'' ''2024-01-01T10:30'' None),
        one_slot_twice) \<and>
   status (booked ''appt-1'' ''P'' ''A'' ''2024-01-01T10:00'' ''2024-01-01T11:00'' None) = ''Success'' \<and>
   status (booked ''appt-2'' ''P'' ''B'' ''2024-01-01T10:00'' ''2024-01-01T10:30'' None) = ''Success'' \<and>
   appointments_overlap (appt ''appt-1'' ''s1'' ''A'' 600 660) (appt ''appt-2'' ''s1'' ''B'' 600 630)"
  by (simp add: eval_defs appointments_overlap_def)

section \<open>Failures of the store during a booking\<close>

text \<open>
  Claim C3, as the code has it. The appointment is created before the slot is marked,
  so a failed creation finds nothing to roll back: the call returns the Failure
  response with an empty bookingId and the text of the exception (there is no
  PersistenceFailure reason), the store is exactly as before, and the slot that was
  found is still Available and is found again by the same lookup.
\<close>

theorem create_failure_leaves_store:
  assumes "fromisoformat ev sT = Inr a" "fromisoformat ev eT = Inr b"
    and "find_first ev st p a b = Inr (Some s)"
    and "create_fault ev = Some (Exception e)"
  shows "book_appointment ev st p c sT eT d = (Inr (failed e p c sT eT), st) \<and>
         s \<in> set (schedules st) \<and> s_status s = ''Available'' \<and>
         find_first ev (snd (book_appointment ev st p c sT eT d)) p a b = Inr (Some s)"
proof -
  have call: "book_appointment ev st p c sT eT d = (Inr (failed e p c sT eT), st)"
    using assms by (simp add: book_defs create_appointment_def)
  from assms(3) have "find (book_where p a b) (schedules st) = Some s"
    by (simp add: find_first_def split: option.splits)
  from find_book_where [OF this] call assms(3) show ?thesis
    by (simp add: book_where_def)
qed

theorem create_failure_leaves_store_witness:
  "find_first create_down one_slot ''P'' 600 660 = Inr (Some (slot ''s1'' 600 660 ''Available'')) \<and>
   book_appointment create_down one_slot ''P'' ''A'' ''2024-01-01T10:00'' ''2024-01-01T11:00'' None
     = (Inr \<lparr>bookingId = [], professionalId = ''P'', clientId = ''A'',
         startTime = ''2024-01-01T10:00'', endTime = ''2024-01-01T11:00'',
         status = ''Failure'', details = None, errorMessage = Some ''connection lost''\<rparr>,
        one_slot) \<and>
   s_status (slot ''s1'' 600 660 ''Available'') = ''Available''"
proof -
  have p1: "fromisoformat create_down ''2024-01-01T10:00'' = Inr 600"
    and p2: "fromisoformat create_down ''2024-01-01T11:00'' = Inr 660"
    and f: "find_first create_down one_slot ''P'' 600 660
              = Inr (Some (slot ''s1'' 600 660 ''Available''))"
    and c: "create_fault create_down = Some (Exception ''connection lost'')"
    by (simp_all add: sample_defs find_first_def book_where_def)
  show ?thesis
    using f create_failure_leaves_store [OF p1 p2 f c, of "''A''" None]
    by (simp add: failed_def)
qed

text \<open>
  The claim as it is written fails when the update of the slot raises after the
  appointment has been created: the call answers Failure and the store keeps the
  appointment with its slot still Available.
\<close>

theorem update_failure_counterexample:
  "slot_matches_appointment one_slot \<and>
   book_appointment update_down one_slot ''P'' ''A'' ''2024-01-01T10:00'' ''2024-01-01T11:00'' None
     = (Inr (failed ''connection lost'' ''P'' ''A'' ''2024-01-01T10:00'' ''2024-01-01T11:00''),
        one_slot_unmarked) \<and>
   \<not> slot_matches_appointment one_slot_unmarked"
proof -
  have "slot_matches_appointment one_slot"
    by (simp add: slot_matches_appointment_def sample_defs is_booked_def)
  moreover have "book_appointment update_down one_slot ''P'' ''A''
       ''2024-01-01T10:00'' ''2024-01-01T11:00'' None
     = (Inr (failed ''connection lost'' ''P'' ''A'' ''2024-01-01T10:00'' ''2024-01-01T11:00''),
        one_slot_unmarked)"
    by (simp add: eval_defs)
  moreover have "\<not> slot_matches_appointment one_slot_unmarked"
    by (simp add: slot_matches_appointment_def sample_defs is_booked_def)
  ultimately show ?thesis by blast
qed

section \<open>Windows that are empty or inverted\<close>

text \<open>
  Claim C4, as the code has it. \<open>book_appointment\<close> does not compare start and end.
  For a request whose timestamps parse, with start at or after end, it runs the same
  lookup as for any window; when no store access raises, it succeeds exactly when an
  Available slot of the professional has its start at or before the requested start
  and its end at or after the requested end: that slot is marked Booked and an
  appointment with the requested times is stored. Otherwise it answers that the
  professional is not available and the store is unchanged. No request is rejected
  as InvalidTimeRange.
\<close>

theorem inverted_window_is_not_checked:
  assumes parse: "fromisoformat ev sT = Inr a" "fromisoformat ev eT = Inr b"
    and inverted: "b \<le> a"
    and no_fault: "find_first_fault ev = None" "create_fault ev = None" "update_fault ev = None"
    and call: "book_appointment ev st p c sT eT d = (out, st')"
  shows "(if \<exists>s \<in> set (schedules st). book_where p a b s
          then out = Inr (booked (new_id ev) p c sT eT d) \<and>
               (\<exists>s \<in> set (schedules st). book_where p a b s \<and>
                  st' = \<lparr>schedules = map (set_status (s_id s) ''Booked'') (schedules st),
                         appointments = appointments st @
                           [\<lparr>a_id = new_id ev, a_scheduleId = s_id s, a_clientId = c,
                             a_startTime = a, a_endTime = b\<rparr>]\<rparr>)
          else out = Inr (not_available p c sT eT d) \<and> st' = st)"
proof (cases "find (book_where p a b) (schedules st)")
  case None
  then have "\<not> (\<exists>s \<in> set (schedules st). book_where p a b s)"
    by (simp add: find_book_where_None)
  moreover have "out = Inr (not_available p c sT eT d) \<and> st' = st"
    using call parse no_fault None by (simp add: book_defs op_defs)
  ultimately show ?thesis by simp
next
  case (Some s)
  from find_book_where [OF Some] have s: "s \<in> set (schedules st)" "book_where p a b s"
    by simp_all
  have "out = Inr (booked (new_id ev) p c sT eT d) \<and>
        st' = \<lparr>schedules = map (set_status (s_id s) ''Booked'') (schedules st),
               appointments = appointments st @
                 [\<lparr>a_id = new_id ev, a_scheduleId = s_id s, a_clientId = c,
                   a_startTime = a, a_endTime = b\<rparr>]\<rparr>"
    using call parse no_fault Some by (auto simp: book_defs op_defs Let_def)
  with s show ?thesis by auto
qed

text \<open>
  A request from 12:00 back to 10:00 on the slot 10:00 to 11:00: the slot starts
  before 12:00 and ends after 10:00, so the request is booked.
\<close>

theorem inverted_window_is_not_checked_witness:
  "(600::int) \<le> 720 \<and> book_where ''P'' 720 600 (slot ''s1'' 600 660 ''Available'') \<and>
   fst (book_appointment ok_env one_slot ''P'' ''A'' ''2024-01-01T12:00'' ''2024-01-01T10:00'' None)
     = Inr (booked ''appt-1'' ''P'' ''A'' ''2024-01-01T12:00'' ''2024-01-01T10:00'' None) \<and>
   snd (book_appointment ok_env one_slot ''P'' ''A'' ''2024-01-01T12:00'' ''2024-01-01T10:00'' None)
     = \<lparr>schedules = [slot ''s1'' 600 660 ''Booked''],
        appointments = [appt ''appt-1'' ''s1'' ''A'' 720 600]\<rparr>"
proof -
  have p1: "fromisoformat ok_env ''2024-01-01T12:00'' = Inr 720"
    and p2: "fromisoformat ok_env ''2024-01-01T10:00'' = Inr 600"
    and nf: "find_first_fault ok_env = None" "create_fault ok_env = None"
      "update_fault ok_env = None"
    by (simp_all add: sample_defs)
  have inv: "(600::int) \<le> 720" by simp
  have w: "book_where ''P'' 720 600 (slot ''s1'' 600 660 ''Available'')"
    by (simp add: book_where_def slot_def)
  have ex: "\<exists>s \<in> set (schedules one_slot). book_where ''P'' 720 600 s"
    using w by (simp add: one_slot_def)
  show ?thesis
    using w ex inverted_window_is_not_checked [OF p1 p2 inv nf prod.collapse [symmetric],
        of one_slot "''P''" "''A''" None]
    by (simp add: sample_defs set_status_def)
qed

text \<open>
  The claim as it is written fails on \<open>one_slot\<close>: the request from 10:30 to 10:30
  (start equal to end) is answered with Success, and the store has changed.
\<close>

theorem empty_window_counterexample:
  "fromisoformat ok_env ''2024-01-01T10:30'' = Inr 630 \<and> (630::int) \<ge> 630 \<and>
   book_appointment ok_env one_slot ''P'' ''A'' ''2024-01-01T10:30'' ''2024-01-01T10:30'' None
     = (Inr (booked ''appt-1'' ''P'' ''A'' ''2024-01-01T10:30'' ''2024-01-01T10:30'' None),
        one_slot_empty_window) \<and>
   status (booked ''appt-1'' ''P'' ''A'' ''2024-01-01T10:30'' ''2024-01-01T10:30'' None)
     = ''Success'' \<and>
   one_slot_empty_window \<noteq> one_slot"
  by (simp add: eval_defs)

section \<open>No covering slot\<close>

text \<open>
  Claim C7. When the timestamps of a request parse and no Available slot of the
  professional covers the window (slot start at or before the requested start, slot
  end at or after the requested end), the store is unchanged and every response that
  \<open>book_appointment\<close> returns has status Failure and an empty bookingId. When the
  lookup answers, the call returns the response that says the professional is not
  available at the requested time, with the request's fields and details echoed.
  When the lookup raises an \<open>Exception\<close>, the call returns the Failure response with
  the text of the exception; only an exception that is no \<open>Exception\<close> leaves the
  function.
\<close>

theorem no_covering_slot_fails_without_mutation:
  assumes parse: "fromisoformat ev sT = Inr a" "fromisoformat ev eT = Inr b"
    and none: "\<forall>s \<in> set (schedules st). \<not> (s_professionalId s = p \<and> s_status s = ''Available'' \<and>
                 s_start s \<le> a \<and> b \<le> s_end s)"
  shows "snd (book_appointment ev st p c sT eT d) = st \<and>
         (\<forall>r. fst (book_appointment ev st p c sT eT d) = Inr r \<longrightarrow>
            status r = ''Failure'' \<and> bookingId r = []) \<and>
         (find_first_fault ev = None \<longrightarrow>
            fst (book_appointment ev st p c sT eT d) =
              Inr \<lparr>bookingId = [], professionalId = p, clientId = c, startTime = sT, endTime = eT,
               status = ''Failure'', details = d,
               errorMessage = Some ''Professional is not available at the requested time.''\<rparr>) \<and>
         (\<forall>e. find_first_fault ev = Some (Exception e) \<longrightarrow>
            fst (book_appointment ev st p c sT eT d) =
              Inr \<lparr>bookingId = [], professionalId = p, clientId = c, startTime = sT, endTime = eT,
               status = ''Failure'', details = None, errorMessage = Some e\<rparr>) \<and>
         (\<forall>n. find_first_fault ev = Some (Other_BaseException n) \<longrightarrow>
            fst (book_appointment ev st p c sT eT d) = Inl (Other_BaseException n))"
proof -
  from none have "find (book_where p a b) (schedules st) = None"
    by (simp add: find_book_where_None book_where_def)
  then have "book_appointment ev st p c sT eT d =
      (case find_first_fault ev of
         None \<Rightarrow> (Inr (not_available p c sT eT d), st)
       | Some (Exception e) \<Rightarrow> (Inr (failed e p c sT eT), st)
       | Some (Other_BaseException n) \<Rightarrow> (Inl (Other_BaseException n), st))"
    using parse
    by (simp add: book_defs find_first_def split: option.splits exn.splits)
  then show ?thesis
    by (auto simp: resp_defs split: option.splits exn.splits)
qed

text \<open>The slot 10:00 to 11:00 does not cover the request 10:00 to 12:00.\<close>

theorem no_covering_slot_fails_without_mutation_witness:
  "find_first_fault ok_env = None \<and>
   book_appointment ok_env one_slot ''P'' ''A'' ''2024-01-01T10:00'' ''2024-01-01T12:00''
       (Some ''check-up'')
     = (Inr \<lparr>bookingId = [], professionalId = ''P'', clientId = ''A'',
         startTime = ''2024-01-01T10:00'', endTime = ''2024-01-01T12:00'',
         status = ''Failure'', details = Some ''check-up'',
         errorMessage = Some ''Professional is not available at the requested time.''\<rparr>,
        one_slot)"
proof -
  have p1: "fromisoformat ok_env ''2024-01-01T10:00'' = Inr 600"
    and p2: "fromisoformat ok_env ''2024-01-01T12:00'' = Inr 720"
    and nf: "find_first_fault ok_env = None"
    by (simp_all add: sample_defs)
  have none: "\<forall>s \<in> set (schedules one_slot).
      \<not> (s_professionalId s = ''P'' \<and> s_status s = ''Available'' \<and> s_start s \<le> 600 \<and> 720 \<le> s_end s)"
    by (simp add: sample_defs)
  show ?thesis
    using nf no_covering_slot_fails_without_mutation
        [OF p1 p2 none, of "''A''" "Some ''check-up''"]
    by (simp add: prod_eq_iff)
qed


section \<open>Every Exception becomes a response\<close>

text \<open>
  Claim C10, as the code has it. The handler is \<open>except Exception\<close>. Every
  \<open>Exception\<close> raised in the \<open>try\<close> block is turned into the response with status
  Failure, an empty bookingId, no details and the text of the exception as
  errorMessage: a start or an end timestamp that does not parse, and an \<open>Exception\<close>
  raised by the lookup, by the creation of the appointment or by the update of the
  slot. So when no store access raises anything outside \<open>Exception\<close>, the call returns
  a response, with status Success or Failure. What a store access raises outside
  \<open>Exception\<close> (a cancellation of the task while it waits) is not caught: it leaves
  the function and no response is returned.
\<close>

theorem book_appointment_catches_Exceptions:
  "(only_Exceptions ev \<longrightarrow>
      (\<exists>r. fst (book_appointment ev st p c sT eT d) = Inr r \<and>
            (status r = ''Success'' \<or> status r = ''Failure''))) \<and>
   (\<forall>e. fromisoformat ev sT = Inl e \<longrightarrow>
      book_appointment ev st p c sT eT d = (Inr (failed e p c sT eT), st)) \<and>
   (\<forall>e a. fromisoformat ev sT = Inr a \<and> fromisoformat ev eT = Inl e \<longrightarrow>
      book_appointment ev st p c sT eT d = (Inr (failed e p c sT eT), st)) \<and>
   (\<forall>e a b. fromisoformat ev sT = Inr a \<and> fromisoformat ev eT = Inr b \<and>
        find_first_fault ev = Some (Exception e) \<longrightarrow>
      book_appointment ev st p c sT eT d = (Inr (failed e p c sT eT), st)) \<and>
   (\<forall>e a b s. fromisoformat ev sT = Inr a \<and> fromisoformat ev eT = Inr b \<and>
        find_first ev st p a b = Inr (Some s) \<and> create_fault ev = Some (Exception e) \<longrightarrow>
      book_appointment ev st p c sT eT d = (Inr (failed e p c sT eT), st)) \<and>
   (\<forall>e a b s. fromisoformat ev sT = Inr a \<and> fromisoformat ev eT = Inr b \<and>
        find_first ev st p a b = Inr (Some s) \<and> create_fault ev = None \<and>
        update_fault ev = Some (Exception e) \<longrightarrow>
      book_appointment ev st p c sT eT d =
        (Inr (failed e p c sT eT),
         st\<lparr>appointments := appointments st @
              [\<lparr>a_id = new_id ev, a_scheduleId = s_id s, a_clientId = c,
                a_startTime = a, a_endTime = b\<rparr>]\<rparr>)) \<and>
   (\<forall>n a b. fromisoformat ev sT = Inr a \<and> fromisoformat ev eT = Inr b \<and>
        find_first_fault ev = Some (Other_BaseException n) \<longrightarrow>
      book_appointment ev st p c sT eT d = (Inl (Other_BaseException n), st)) \<and>
   failed e' p c sT eT =
     \<lparr>bookingId = [], professionalId = p, clientId = c, startTime = sT, endTime = eT,
      status = ''Failure'', details = None, errorMessage = Some e'\<rparr>"
proof -
  have total: "only_Exceptions ev \<longrightarrow>
      (\<exists>r. fst (book_appointment ev st p c sT eT d) = Inr r \<and>
            (status r = ''Success'' \<or> status r = ''Failure''))"
  proof
    assume only: "only_Exceptions ev"
    obtain out st' where call: "book_appointment ev st p c sT eT d = (out, st')"
      by (cases "book_appointment ev st p c sT eT d")
    have "\<not> (\<exists>n. out = Inl (Other_BaseException n))"
      using call only
      by (auto simp: book_defs op_defs Let_def only_Exceptions_def is_Exception_def
          split: sum.splits option.splits prod.splits exn.splits)
    with book_appointment_outcomes [OF call]
    have "\<exists>r. out = Inr r \<and> (status r = ''Success'' \<or> status r = ''Failure'')"
      by (auto simp: resp_defs)
    with call show "\<exists>r. fst (book_appointment ev st p c sT eT d) = Inr r \<and>
            (status r = ''Success'' \<or> status r = ''Failure'')"
      by simp
  qed
  have rest: "(\<forall>e. fromisoformat ev sT = Inl e \<longrightarrow>
      book_appointment ev st p c sT eT d = (Inr (failed e p c sT eT), st)) \<and>
   (\<forall>e a. fromisoformat ev sT = Inr a \<and> fromisoformat ev eT = Inl e \<longrightarrow>
      book_appointment ev st p c sT eT d = (Inr (failed e p c sT eT), st)) \<and>
   (\<forall>e a b. fromisoformat ev sT = Inr a \<and> fromisoformat ev eT = Inr b \<and>
        find_first_fault ev = Some (Exception e) \<longrightarrow>
      book_appointment ev st p c sT eT d = (Inr (failed e p c sT eT), st)) \<and>
   (\<forall>e a b s. fromisoformat ev sT = Inr a \<and> fromisoformat ev eT = Inr b \<and>
        find_first ev st p a b = Inr (Some s) \<and> create_fault ev = Some (Exception e) \<longrightarrow>
      book_appointment ev st p c sT eT d = (Inr (failed e p c sT eT), st)) \<and>
   (\<forall>e a b s. fromisoformat ev sT = Inr a \<and> fromisoformat ev eT = Inr b \<and>
        find_first ev st p a b = Inr (Some s) \<and> create_fault ev = None \<and>
        update_fault ev = Some (Exception e) \<longrightarrow>
      book_appointment ev st p c sT eT d =
        (Inr (failed e p c sT eT),
         st\<lparr>appointments := appointments st @
              [\<lparr>a_id = new_id ev, a_scheduleId = s_id s, a_clientId = c,
                a_startTime = a, a_endTime = b\<rparr>]\<rparr>)) \<and>
   (\<forall>n a b. fromisoformat ev sT = Inr a \<and> fromisoformat ev eT = Inr b \<and>
        find_first_fault ev = Some (Other_BaseException n) \<longrightarrow>
      book_appointment ev st p c sT eT d = (Inl (Other_BaseException n), st))"
    by (simp add: book_defs op_defs Let_def)
  from total rest show ?thesis
    by (simp add: failed_def)
qed

text \<open>
  The five places where the \<open>try\<close> block can raise an \<open>Exception\<close>, each on
  \<open>one_slot\<close>: a start and an end that are no timestamps, and a lookup, a creation and
  an update that lose the connection.
\<close>

theorem book_appointment_catches_Exceptions_witness:
  "fromisoformat ok_env ''tomorrow''
     = Inl (''Invalid isoformat string: '' @ [CHR 0x27] @ ''tomorrow'' @ [CHR 0x27]) \<and>
   book_appointment ok_env one_slot ''P'' ''A'' ''tomorrow'' ''2024-01-01T11:00'' None
     = (Inr \<lparr>bookingId = [], professionalId = ''P'', clientId = ''A'',
         startTime = ''tomorrow'', endTime = ''2024-01-01T11:00'',
         status = ''Failure'', details = None,
         errorMessage =
           Some (''Invalid isoformat string: '' @ [CHR 0x27] @ ''tomorrow'' @ [CHR 0x27])\<rparr>,
        one_slot) \<and>
   book_appointment ok_env one_slot ''P'' ''A'' ''2024-01-01T10:00'' ''noon'' None
     = (Inr \<lparr>bookingId = [], professionalId = ''P'', clientId = ''A'',
         startTime = ''2024-01-01T10:00'', endTime = ''noon'',
         status = ''Failure'', details = None,
         errorMessage =
           Some (''Invalid isoformat string: '' @ [CHR 0x27] @ ''noon'' @ [CHR 0x27])\<rparr>,
        one_slot) \<and>
   book_appointment find_down one_slot ''P'' ''A'' ''2024-01-01T10:00'' ''2024-01-01T11:00'' None
     = (Inr \<lparr>bookingId = [], professionalId = ''P'', clientId = ''A'',
         startTime = ''2024-01-01T10:00'', endTime = ''2024-01-01T11:00'',
         status = ''Failure'', details = None, errorMessage = Some ''connection lost''\<rparr>,
        one_slot) \<and>
   book_appointment create_down one_slot ''P'' ''A'' ''2024-01-01T10:00'' ''2024-01-01T11:00'' None
     = (Inr \<lparr>bookingId = [], professionalId = ''P'', clientId = ''A'',
         startTime = ''2024-01-01T10:00'', endTime = ''2024-01-01T11:00'',
         status = ''Failure'', details = None, errorMessage = Some ''connection lost''\<rparr>,
        one_slot) \<and>
   book_appointment update_down one_slot ''P'' ''A'' ''2024-01-01T10:00'' ''2024-01-01T11:00'' None
     = (Inr \<lparr>bookingId = [], professionalId = ''P'', clientId = ''A'',
         startTime = ''2024-01-01T10:00'', endTime = ''2024-01-01T11:00'',
         status = ''Failure'', details = None, errorMessage = Some ''connection lost''\<rparr>,
        one_slot_unmarked) \<and>
   only_Exceptions update_down \<and>
   (\<exists>r. fst (book_appointment update_down one_slot ''P'' ''A''
               ''2024-01-01T10:00'' ''2024-01-01T11:00'' None) = Inr r \<and>
        (status r = ''Success'' \<or> status r = ''Failure''))"
proof -
  have p0: "fromisoformat ok_env ''tomorrow''
     = Inl (''Invalid isoformat string: '' @ [CHR 0x27] @ ''tomorrow'' @ [CHR 0x27])"
    and p1: "fromisoformat ok_env ''2024-01-01T10:00'' = Inr 600"
    and p2: "fromisoformat ok_env ''noon''
     = Inl (''Invalid isoformat string: '' @ [CHR 0x27] @ ''noon'' @ [CHR 0x27])"
    by (simp_all add: sample_defs)
  have f1: "fromisoformat find_down ''2024-01-01T10:00'' = Inr 600"
    and f2: "fromisoformat find_down ''2024-01-01T11:00'' = Inr 660"
    and f3: "find_first_fault find_down = Some (Exception ''connection lost'')"
    by (simp_all add: sample_defs)
  have c1: "fromisoformat create_down ''2024-01-01T10:00'' = Inr 600"
    and c2: "fromisoformat create_down ''2024-01-01T11:00'' = Inr 660"
    and c3: "find_first create_down one_slot ''P'' 600 660
       = Inr (Some (slot ''s1'' 600 660 ''Available''))"
    and c4: "create_fault create_down = Some (Exception ''connection lost'')"
    by (simp_all add: sample_defs find_first_def book_where_def)
  have u1: "fromisoformat update_down ''2024-01-01T10:00'' = Inr 600"
    and u2: "fromisoformat update_down ''2024-01-01T11:00'' = Inr 660"
    and u3: "find_first update_down one_slot ''P'' 600 660
       = Inr (Some (slot ''s1'' 600 660 ''Available''))"
    and u4: "create_fault update_down = None"
    and u5: "update_fault update_down = Some (Exception ''connection lost'')"
    by (simp_all add: sample_defs find_first_def book_where_def)
  have only: "only_Exceptions update_down"
    by (simp add: only_Exceptions_def is_Exception_def sample_defs)
  note start = book_appointment_catches_Exceptions
    [of ok_env one_slot "''P''" "''A''" "''tomorrow''" "''2024-01-01T11:00''" None]
  note finish = book_appointment_catches_Exceptions
    [of ok_env one_slot "''P''" "''A''" "''2024-01-01T10:00''" "''noon''" None]
  note lookup = book_appointment_catches_Exceptions
    [of find_down one_slot "''P''" "''A''" "''2024-01-01T10:00''" "''2024-01-01T11:00''" None]
  note creation = book_appointment_catches_Exceptions
    [of create_down one_slot "''P''" "''A''" "''2024-01-01T10:00''" "''2024-01-01T11:00''" None]
  note update = book_appointment_catches_Exceptions
    [of update_down one_slot "''P''" "''A''" "''2024-01-01T10:00''" "''2024-01-01T11:00''" None]
  have a: "book_appointment ok_env one_slot ''P'' ''A'' ''tomorrow'' ''2024-01-01T11:00'' None
     = (Inr (failed (''Invalid isoformat string: '' @ [CHR 0x27] @ ''tomorrow'' @ [CHR 0x27])
               ''P'' ''A'' ''tomorrow'' ''2024-01-01T11:00''), one_slot)"
    using start p0 by blast
  have b: "book_appointment ok_env one_slot ''P'' ''A'' ''2024-01-01T10:00'' ''noon'' None
     = (Inr (failed (''Invalid isoformat string: '' @ [CHR 0x27] @ ''noon'' @ [CHR 0x27])
               ''P'' ''A'' ''2024-01-01T10:00'' ''noon''), one_slot)"
    using finish p1 p2 by blast
  have c: "book_appointment find_down one_slot ''P'' ''A''
       ''2024-01-01T10:00'' ''2024-01-01T11:00'' None
     = (Inr (failed ''connection lost'' ''P'' ''A'' ''2024-01-01T10:00'' ''2024-01-01T11:00''),
        one_slot)"
    using lookup f1 f2 f3 by blast
  have d: "book_appointment create_down one_slot ''P'' ''A''
       ''2024-01-01T10:00'' ''2024-01-01T11:00'' None
     = (Inr (failed ''connection lost'' ''P'' ''A'' ''2024-01-01T10:00'' ''2024-01-01T11:00''),
        one_slot)"
    using creation c1 c2 c3 c4 by blast
  have e: "book_appointment update_down one_slot ''P'' ''A''
       ''2024-01-01T10:00'' ''2024-01-01T11:00'' None
     = (Inr (failed ''connection lost'' ''P'' ''A'' ''2024-01-01T10:00'' ''2024-01-01T11:00''),
        one_slot\<lparr>appointments := appointments one_slot @
              [\<lparr>a_id = new_id update_down, a_scheduleId = s_id (slot ''s1'' 600 660 ''Available''),
                a_clientId = ''A'', a_startTime = 600, a_endTime = 660\<rparr>]\<rparr>)"
    using update u1 u2 u3 u4 u5 by blast
  have t: "\<exists>r. fst (book_appointment update_down one_slot ''P'' ''A''
               ''2024-01-01T10:00'' ''2024-01-01T11:00'' None) = Inr r \<and>
        (status r = ''Success'' \<or> status r = ''Failure'')"
    using update only by blast
  show ?thesis
    using p0 a b c d e only t by (simp add: failed_def sample_defs)
qed

text \<open>
  The claim as it is written fails when the task is cancelled while it waits for the
  lookup: \<open>CancelledError\<close> is no \<open>Exception\<close>, the handler does not catch it, and the
  call ends with the exception instead of a response.
\<close>

theorem cancelled_lookup_counterexample:
  "book_appointment cancelled_env one_slot ''P'' ''A'' ''2024-01-01T10:00'' ''2024-01-01T11:00'' None
     = (Inl (Other_BaseException ''CancelledError''), one_slot)"
  by (simp add: eval_defs)


section \<open>The availability listing\<close>

text \<open>
  Claim C5, as the code has it. The query of \<open>fetch_availability\<close> asks for the slots
  of the professional with one status value and for no ordering, and the function
  does not sort. So there is a status value, neither Booked nor Cancelled, such that
  for every store and professional, when the store access does not raise, the
  listing is: the slots of that professional with that status, each as its start, end
  and status, in the order in which the store holds them. No slot with status Booked
  or Cancelled is listed, the store is only read, and the listing is empty, not an
  error, when every slot of the professional is Booked or Cancelled or the
  professional has no slot.
\<close>

theorem fetch_availability_lists_store_order:
  "\<exists>v. v \<noteq> ''Booked'' \<and> v \<noteq> ''Cancelled'' \<and>
     (\<forall>ev st p. find_many_fault ev = None \<longrightarrow>
        (\<exists>r. fetch_availability ev st p = Inr r \<and>
           availability r =
             map (\<lambda>s. \<lparr>start_time = s_start s, end_time = s_end s, ts_status = s_status s\<rparr>)
               (filter (\<lambda>s. s_professionalId s = p \<and> s_status s = v) (schedules st)) \<and>
           subseq (availability r) (map slot_of (schedules st)) \<and>
           (\<forall>t \<in> set (availability r). ts_status t \<noteq> ''Booked'' \<and> ts_status t \<noteq> ''Cancelled'') \<and>
           ((\<forall>s \<in> set (schedules st). s_professionalId s = p \<longrightarrow>
               s_status s = ''Booked'' \<or> s_status s = ''Cancelled'')
              \<longrightarrow> availability r = [])))"
proof (intro exI [of _ "''AVAILABLE''"] conjI allI impI)
  fix ev :: env and st :: store and p :: string
  assume nf: "find_many_fault ev = None"
  let ?rows = "filter (fetch_where p) (schedules st)"
  have call: "fetch_availability ev st p = Inr \<lparr>availability = map slot_of ?rows\<rparr>"
    using nf by (simp add: fetch_availability_def find_many_def)
  have eq: "fetch_where p = (\<lambda>s. s_professionalId s = p \<and> s_status s = ''AVAILABLE'')"
    by (simp add: fun_eq_iff fetch_where_def)
  have eq': "slot_of = (\<lambda>s. \<lparr>start_time = s_start s, end_time = s_end s, ts_status = s_status s\<rparr>)"
    by (simp add: fun_eq_iff slot_of_def)
  have rows: "map slot_of ?rows =
      map (\<lambda>s. \<lparr>start_time = s_start s, end_time = s_end s, ts_status = s_status s\<rparr>)
        (filter (\<lambda>s. s_professionalId s = p \<and> s_status s = ''AVAILABLE'') (schedules st))"
    by (simp only: eq eq')
  have sub: "subseq (map slot_of ?rows) (map slot_of (schedules st))"
    by (simp add: subseq_map)
  have stt: "\<forall>t \<in> set (map slot_of ?rows). ts_status t \<noteq> ''Booked'' \<and> ts_status t \<noteq> ''Cancelled''"
    by (auto simp: slot_of_def fetch_where_def)
  have emp: "(\<forall>s \<in> set (schedules st). s_professionalId s = p \<longrightarrow>
               s_status s = ''Booked'' \<or> s_status s = ''Cancelled'') \<longrightarrow> map slot_of ?rows = []"
    by (auto simp: filter_empty_conv fetch_where_def)
  show "\<exists>r. fetch_availability ev st p = Inr r \<and>
           availability r =
             map (\<lambda>s. \<lparr>start_time = s_start s, end_time = s_end s, ts_status = s_status s\<rparr>)
               (filter (\<lambda>s. s_professionalId s = p \<and> s_status s = ''AVAILABLE'') (schedules st)) \<and>
           subseq (availability r) (map slot_of (schedules st)) \<and>
           (\<forall>t \<in> set (availability r). ts_status t \<noteq> ''Booked'' \<and> ts_status t \<noteq> ''Cancelled'') \<and>
           ((\<forall>s \<in> set (schedules st). s_professionalId s = p \<longrightarrow>
               s_status s = ''Booked'' \<or> s_status s = ''Cancelled'')
              \<longrightarrow> availability r = [])"
    using call rows sub stt emp by simp
qed simp_all

text \<open>
  In \<open>listed_store\<close> two slots of the professional are listed, in the order of the
  store, the Booked slot is not, and all listed slots have one status.
\<close>

theorem fetch_availability_lists_store_order_witness:
  "find_many_fault ok_env = None \<and>
   (\<exists>r v. fetch_availability ok_env listed_store ''P'' = Inr r \<and>
      availability r =
        [\<lparr>start_time = 660, end_time = 720, ts_status = v\<rparr>,
         \<lparr>start_time = 600, end_time = 660, ts_status = v\<rparr>] \<and>
      v \<noteq> ''Booked'' \<and> v \<noteq> ''Cancelled'' \<and>
      subseq (availability r) (map slot_of (schedules listed_store)) \<and>
      slot_of (slot ''s4'' 720 780 ''Booked'') \<notin> set (availability r))"
proof -
  have nf: "find_many_fault ok_env = None"
    by (simp add: sample_defs)
  from fetch_availability_lists_store_order
  obtain v where v: "v \<noteq> ''Booked''" "v \<noteq> ''Cancelled''"
    and all: "\<And>ev st p. find_many_fault ev = None \<Longrightarrow>
        (\<exists>r. fetch_availability ev st p = Inr r \<and>
           availability r =
             map (\<lambda>s. \<lparr>start_time = s_start s, end_time = s_end s, ts_status = s_status s\<rparr>)
               (filter (\<lambda>s. s_professionalId s = p \<and> s_status s = v) (schedules st)) \<and>
           subseq (availability r) (map slot_of (schedules st)) \<and>
           (\<forall>t \<in> set (availability r). ts_status t \<noteq> ''Booked'' \<and> ts_status t \<noteq> ''Cancelled'') \<and>
           ((\<forall>s \<in> set (schedules st). s_professionalId s = p \<longrightarrow>
               s_status s = ''Booked'' \<or> s_status s = ''Cancelled'')
              \<longrightarrow> availability r = []))"
    by blast
  from all [OF nf, of listed_store "''P''"]
  obtain r where r: "fetch_availability ok_env listed_store ''P'' = Inr r"
    and rows: "availability r =
             map (\<lambda>s. \<lparr>start_time = s_start s, end_time = s_end s, ts_status = s_status s\<rparr>)
               (filter (\<lambda>s. s_professionalId s = ''P'' \<and> s_status s = v) (schedules listed_store))"
    and sub: "subseq (availability r) (map slot_of (schedules listed_store))"
    and nb: "\<forall>t \<in> set (availability r). ts_status t \<noteq> ''Booked'' \<and> ts_status t \<noteq> ''Cancelled''"
    by blast
  have direct: "fetch_availability ok_env listed_store ''P''
     = Inr \<lparr>availability =
         [\<lparr>start_time = 660, end_time = 720, ts_status = ''AVAILABLE''\<rparr>,
          \<lparr>start_time = 600, end_time = 660, ts_status = ''AVAILABLE''\<rparr>]\<rparr>"
    by (simp add: eval_defs)
  from r direct have len: "length (availability r) = 2"
    and r_eq: "availability r =
        [\<lparr>start_time = 660, end_time = 720, ts_status = ''AVAILABLE''\<rparr>,
         \<lparr>start_time = 600, end_time = 660, ts_status = ''AVAILABLE''\<rparr>]"
    by auto
  have "v = ''AVAILABLE''"
  proof (rule ccontr)
    assume "v \<noteq> ''AVAILABLE''"
    then have "length (availability r) < 2"
      using rows by (auto simp: sample_defs)
    with len show False by simp
  qed
  with r_eq have list: "availability r =
        [\<lparr>start_time = 660, end_time = 720, ts_status = v\<rparr>,
         \<lparr>start_time = 600, end_time = 660, ts_status = v\<rparr>]"
    by simp
  have "slot_of (slot ''s4'' 720 780 ''Booked'') \<notin> set (availability r)"
    using nb by (auto simp: slot_of_def slot_def)
  with nf r list v sub show ?thesis by blast
qed

text \<open>
  The claim as it is written fails on \<open>listed_store\<close>, whose rows are not held in the
  order of their start times: the listing starts with the slot of 11:00 and goes on
  with the slot of 10:00.
\<close>

theorem fetch_availability_unsorted_counterexample:
  "fetch_availability ok_env listed_store ''P''
     = Inr \<lparr>availability =
         [\<lparr>start_time = 660, end_time = 720, ts_status = ''AVAILABLE''\<rparr>,
          \<lparr>start_time = 600, end_time = 660, ts_status = ''AVAILABLE''\<rparr>]\<rparr> \<and>
   \<not> sorted (map start_time
         [\<lparr>start_time = 660, end_time = 720, ts_status = ''AVAILABLE''\<rparr>,
          \<lparr>start_time = 600, end_time = 660, ts_status = ''AVAILABLE''\<rparr>])"
  by (simp add: eval_defs)

section \<open>The two spellings of the status\<close>

text \<open>
  Claim C9. The lookup of \<open>fetch_availability\<close> asks for the status AVAILABLE and the
  lookup of \<open>book_appointment\<close> for the status Available, so no slot satisfies both.
  In a store with unique slot identifiers, a call of \<open>book_appointment\<close>, successful
  or not, leaves the result of \<open>fetch_availability\<close> unchanged for every
  professional, and a slot that the booking lookup returns is in no listing.
\<close>

theorem fetch_and_book_filters_disjoint:
  assumes ids: "unique_ids st"
    and call: "book_appointment ev st p c sT eT d = (out, st')"
  shows "fetch_availability ev' st' q = fetch_availability ev' st q \<and>
         (\<forall>s \<in> set (schedules st). \<not> (fetch_where q s \<and> book_where p' a b s)) \<and>
         (\<forall>s l. find_first ev st p' a b = Inr (Some s) \<and> fetch_availability ev' st q = Inr l
            \<longrightarrow> slot_of s \<notin> set (availability l))"
proof -
  from book_appointment_schedules [OF call]
  consider "schedules st' = schedules st"
    | a b s where "find (book_where p a b) (schedules st) = Some s"
        "schedules st' = map (set_status (s_id s) ''Booked'') (schedules st)"
    by auto
  then have "filter (fetch_where q) (schedules st') = filter (fetch_where q) (schedules st)"
  proof cases
    case 1
    then show ?thesis by simp
  next
    case 2
    from find_book_where [OF 2(1)]
    have s: "s \<in> set (schedules st)" "s_status s = ''Available''"
      by (simp_all add: book_where_def)
    have "filter (fetch_where q) (map (set_status (s_id s) ''Booked'') (schedules st))
          = filter (fetch_where q) (schedules st)"
    proof (rule filter_map_unchanged)
      fix t assume t: "t \<in> set (schedules st)"
        and "fetch_where q (set_status (s_id s) ''Booked'' t) \<or> fetch_where q t"
      then have "t \<noteq> s"
        using s(2) by (auto simp: fetch_where_def set_status_def)
      with set_status_other [OF _ s(1) t] ids show "set_status (s_id s) ''Booked'' t = t"
        by (simp add: unique_ids_def)
    qed
    with 2(2) show ?thesis by simp
  qed
  then have same: "fetch_availability ev' st' q = fetch_availability ev' st q"
    by (simp add: fetch_availability_def find_many_def split: option.splits)
  have disj: "\<forall>s \<in> set (schedules st). \<not> (fetch_where q s \<and> book_where p' a b s)"
    by (auto simp: fetch_where_def book_where_def)
  have listed: "\<forall>s l. find_first ev st p' a b = Inr (Some s) \<and> fetch_availability ev' st q = Inr l
            \<longrightarrow> slot_of s \<notin> set (availability l)"
  proof (intro allI impI, elim conjE)
    fix s l
    assume f: "find_first ev st p' a b = Inr (Some s)" and l: "fetch_availability ev' st q = Inr l"
    from f have "find (book_where p' a b) (schedules st) = Some s"
      by (simp add: find_first_def split: option.splits)
    from find_book_where [OF this] have "ts_status (slot_of s) = ''Available''"
      by (simp add: book_where_def slot_of_def)
    moreover from l have "\<forall>t \<in> set (availability l). ts_status t = ''AVAILABLE''"
      by (auto simp: fetch_availability_def find_many_def fetch_where_def slot_of_def
          split: option.splits)
    ultimately show "slot_of s \<notin> set (availability l)" by auto
  qed
  from same disj listed show ?thesis by blast
qed

text \<open>
  In \<open>listed_store\<close> the booking of 10:00 to 11:00 succeeds on the slot \<open>s3\<close>, and
  the listing is the same before and after it.
\<close>

theorem fetch_and_book_filters_disjoint_witness:
  "unique_ids listed_store \<and>
   book_appointment ok_env listed_store ''P'' ''A'' ''2024-01-01T10:00'' ''2024-01-01T11:00'' None
     = (Inr (booked ''appt-1'' ''P'' ''A'' ''2024-01-01T10:00'' ''2024-01-01T11:00'' None),
        listed_store_booked) \<and>
   fetch_availability ok_env listed_store_booked ''P'' = fetch_availability ok_env listed_store ''P'' \<and>
   find_first ok_env listed_store ''P'' 600 660 = Inr (Some (slot ''s3'' 600 660 ''Available'')) \<and>
   slot_of (slot ''s3'' 600 660 ''Available'')
     \<notin> set [\<lparr>start_time = 660, end_time = 720, ts_status = ''AVAILABLE''\<rparr>,
            \<lparr>start_time = 600, end_time = 660, ts_status = ''AVAILABLE''\<rparr>]"
proof -
  have ids: "unique_ids listed_store"
    by (simp add: unique_ids_def sample_defs)
  have call: "book_appointment ok_env listed_store ''P'' ''A''
       ''2024-01-01T10:00'' ''2024-01-01T11:00'' None
     = (Inr (booked ''appt-1'' ''P'' ''A'' ''2024-01-01T10:00'' ''2024-01-01T11:00'' None),
        listed_store_booked)"
    by (simp add: eval_defs)
  have f: "find_first ok_env listed_store ''P'' 600 660
     = Inr (Some (slot ''s3'' 600 660 ''Available''))"
    by (simp add: eval_defs)
  have l: "fetch_availability ok_env listed_store ''P''
     = Inr \<lparr>availability =
         [\<lparr>start_time = 660, end_time = 720, ts_status = ''AVAILABLE''\<rparr>,
          \<lparr>start_time = 600, end_time = 660, ts_status = ''AVAILABLE''\<rparr>]\<rparr>"
    by (simp add: eval_defs)
  from fetch_and_book_filters_disjoint [OF ids call, of ok_env "''P''" "''P''" 600 660]
  have same: "fetch_availability ok_env listed_store_booked ''P''
        = fetch_availability ok_env listed_store ''P''"
    and listed: "\<forall>s l. find_first ok_env listed_store ''P'' 600 660 = Inr (Some s) \<and>
          fetch_availability ok_env listed_store ''P'' = Inr l
            \<longrightarrow> slot_of s \<notin> set (availability l)"
    by blast+
  from listed f l have "slot_of (slot ''s3'' 600 660 ''Available'')
     \<notin> set (availability \<lparr>availability =
         [\<lparr>start_time = 660, end_time = 720, ts_status = ''AVAILABLE''\<rparr>,
          \<lparr>start_time = 600, end_time = 660, ts_status = ''AVAILABLE''\<rparr>]\<rparr>)"
    by blast
  with ids call same f show ?thesis by simp
qed

section \<open>Synchronisation with an external system\<close>

text \<open>
  Claim C8, as the code has it. \<open>sync_external_schedule\<close> returns a response for
  every input. The only check of the credential is that the API key is not empty: the
  response is the failure (success false, count 0, the one explanatory error string)
  exactly when the API key is empty or the system name is neither SystemA nor
  SystemB, and success is false in exactly those cases. No non-empty key is rejected.
\<close>

theorem sync_external_schedule_fail_fast:
  "(sync_external_schedule pid name key d1 d2 =
      \<lparr>success = False, synced_appointments_count = 0,
       errors = [''Invalid API Key or External System Name'']\<rparr>)
     = (key = [] \<or> name \<notin> {''SystemA'', ''SystemB''}) \<and>
   (\<not> success (sync_external_schedule pid name key d1 d2))
     = (key = [] \<or> name \<notin> {''SystemA'', ''SystemB''})"
  by (auto simp: sync_external_schedule_def)

theorem sync_external_schedule_fail_fast_witness:
  "sync_external_schedule ''P'' ''SystemC'' ''key'' 0 1440 =
      \<lparr>success = False, synced_appointments_count = 0,
       errors = [''Invalid API Key or External System Name'']\<rparr> \<and>
   sync_external_schedule ''P'' ''SystemA'' [] 0 1440 =
      \<lparr>success = False, synced_appointments_count = 0,
       errors = [''Invalid API Key or External System Name'']\<rparr> \<and>
   success (sync_external_schedule ''P'' ''SystemB'' ''key'' 0 1440)"
  using sync_external_schedule_fail_fast [of "''P''" "''SystemC''" "''key''" 0 1440]
    sync_external_schedule_fail_fast [of "''P''" "''SystemA''" "[]" 0 1440]
    sync_external_schedule_fail_fast [of "''P''" "''SystemB''" "''key''" 0 1440]
  by simp

text \<open>
  The claim as it is written fails for a credential that is not empty and not valid:
  a key that is one blank, and a key that no system has issued, are accepted with
  SystemA, with success true and the count 5.
\<close>

theorem sync_blank_key_counterexample:
  "sync_external_schedule ''P'' ''SystemA'' '' '' 0 1440 =
     \<lparr>success = True, synced_appointments_count = 5, errors = []\<rparr> \<and>
   sync_external_schedule ''P'' ''SystemA'' ''wrong-key'' 0 1440 =
     \<lparr>success = True, synced_appointments_count = 5, errors = []\<rparr>"
  by (simp add: sync_external_schedule_def)

text \<open>
  Claim C6, as the code has it. The reconciliation is not implemented: the function
  reads neither the store nor an external system, so no internal slot, Booked or
  not, is changed by it. For a non-empty API key and a recognised system it returns
  success true, the fixed count 5 and an empty list of errors, whatever slots the
  external system and the store hold; no conflict entry is ever reported.
\<close>

theorem sync_external_schedule_fixed_result:
  assumes "key \<noteq> []" and "name \<in> {''SystemA'', ''SystemB''}"
  shows "sync_external_schedule pid name key d1 d2 =
     \<lparr>success = True, synced_appointments_count = 5, errors = []\<rparr>"
  using assms by (auto simp: sync_external_schedule_def)

theorem sync_external_schedule_fixed_result_witness:
  "''key'' \<noteq> [] \<and> ''SystemB'' \<in> {''SystemA'', ''SystemB''} \<and>
   sync_external_schedule ''P'' ''SystemB'' ''key'' 0 1440 =
     \<lparr>success = True, synced_appointments_count = 5, errors = []\<rparr>"
proof -
  have k: "''key'' \<noteq> []" and n: "''SystemB'' \<in> {''SystemA'', ''SystemB''}"
    by simp_all
  show ?thesis
    using k n sync_external_schedule_fixed_result [OF k n, of "''P''" 0 1440] by simp
qed

text \<open>
  The claim as it is written fails at the call of its own example, a sync of
  professional P with SystemA over one day: the count is 5, not 1, and the list of
  errors is empty, with no conflict entry.
\<close>

theorem sync_external_schedule_counterexample:
  "sync_external_schedule ''P'' ''SystemA'' ''key'' 0 1440 =
     \<lparr>success = True, synced_appointments_count = 5, errors = []\<rparr> \<and>
   synced_appointments_count (sync_external_schedule ''P'' ''SystemA'' ''key'' 0 1440) \<noteq> 1 \<and>
   length (errors (sync_external_schedule ''P'' ''SystemA'' ''key'' 0 1440)) \<noteq> 1"
  by (simp add: sync_external_schedule_def)


end
